theory Spec2Isabelle
  imports Complex_Main
begin

section \<open>Single-precision values\<close>

text \<open>
  The operators of \<^verbatim>\<open>inc/gpu_deriv.hpp\<close> compute on \<^verbatim>\<open>float\<close>. A value is
  a finite number, one of the two infinities, or NaN; the arithmetic below follows
  IEEE 754 on these four kinds of value (an invalid operation gives NaN, a division of
  a non-zero number by zero gives an infinity, nothing traps). Two things are left out:
  a finite result is the exact real result (no rounding, no overflow), and the two
  zeros are one value (they compare equal in the source), so the sign of \<open>x / 0\<close> is
  the sign of \<open>x\<close>.
\<close>

datatype float = Fin real | PInf | NInf | NaN

fun is_finite :: "float \<Rightarrow> bool" where
  "is_finite (Fin r) = True"
| "is_finite PInf = False"
| "is_finite NInf = False"
| "is_finite NaN = False"

fun fsign :: "float \<Rightarrow> real" where
  "fsign (Fin r) = sgn r"
| "fsign PInf = 1"
| "fsign NInf = - 1"
| "fsign NaN = 0"

text \<open>The infinity of the given sign; NaN where the sign is zero (\<open>0 * \<infinity>\<close>, \<open>0 / 0\<close>).\<close>

definition inf_sgn :: "real \<Rightarrow> float" where
  "inf_sgn s = (if 0 < s then PInf else if s < 0 then NInf else NaN)"

text \<open>Unary minus.\<close>

fun fneg :: "float \<Rightarrow> float" where
  "fneg (Fin r) = Fin (- r)"
| "fneg PInf = NInf"
| "fneg NInf = PInf"
| "fneg NaN = NaN"

text \<open>\<^verbatim>\<open>a + b\<close>: \<open>\<infinity> + (-\<infinity>)\<close> is NaN.\<close>

fun fadd :: "float \<Rightarrow> float \<Rightarrow> float" where
  "fadd (Fin a) (Fin b) = Fin (a + b)"
| "fadd (Fin a) PInf = PInf"
| "fadd (Fin a) NInf = NInf"
| "fadd PInf (Fin b) = PInf"
| "fadd PInf PInf = PInf"
| "fadd PInf NInf = NaN"
| "fadd NInf (Fin b) = NInf"
| "fadd NInf PInf = NaN"
| "fadd NInf NInf = NInf"
| "fadd NaN b = NaN"
| "fadd a NaN = NaN"

text \<open>\<^verbatim>\<open>a - b\<close>.\<close>

definition fsub :: "float \<Rightarrow> float \<Rightarrow> float" where
  "fsub a b = fadd a (fneg b)"

text \<open>\<^verbatim>\<open>a * b\<close>: \<open>0 * \<infinity>\<close> is NaN.\<close>

fun fmul :: "float \<Rightarrow> float \<Rightarrow> float" where
  "fmul (Fin a) (Fin b) = Fin (a * b)"
| "fmul NaN b = NaN"
| "fmul a NaN = NaN"
| "fmul a b = inf_sgn (fsign a * fsign b)"

text \<open>\<^verbatim>\<open>a / b\<close>: \<open>0 / 0\<close> and \<open>\<infinity> / \<infinity>\<close> are NaN, \<open>x / 0\<close> is an infinity.\<close>

fun fdiv :: "float \<Rightarrow> float \<Rightarrow> float" where
  "fdiv (Fin a) (Fin b) = (if b = 0 then inf_sgn a else Fin (a / b))"
| "fdiv (Fin a) PInf = Fin 0"
| "fdiv (Fin a) NInf = Fin 0"
| "fdiv PInf (Fin b) = (if 0 \<le> b then PInf else NInf)"
| "fdiv NInf (Fin b) = (if 0 \<le> b then NInf else PInf)"
| "fdiv PInf PInf = NaN"
| "fdiv PInf NInf = NaN"
| "fdiv NInf PInf = NaN"
| "fdiv NInf NInf = NaN"
| "fdiv NaN b = NaN"
| "fdiv a NaN = NaN"

text \<open>\<^verbatim>\<open>a < b\<close>, \<^verbatim>\<open>a == b\<close> and \<^verbatim>\<open>a >= b\<close>: every comparison with NaN is false.\<close>

fun flt :: "float \<Rightarrow> float \<Rightarrow> bool" where
  "flt (Fin a) (Fin b) = (a < b)"
| "flt (Fin a) PInf = True"
| "flt (Fin a) NInf = False"
| "flt PInf b = False"
| "flt NInf (Fin b) = True"
| "flt NInf PInf = True"
| "flt NInf NInf = False"
| "flt NaN b = False"
| "flt a NaN = False"

definition feq :: "float \<Rightarrow> float \<Rightarrow> bool" where
  "feq a b = (a = b \<and> a \<noteq> NaN)"

definition fge :: "float \<Rightarrow> float \<Rightarrow> bool" where
  "fge a b = (flt b a \<or> feq a b)"

text \<open>\<^verbatim>\<open>a <= b\<close> (not called by the source).\<close>

definition fle :: "float \<Rightarrow> float \<Rightarrow> bool" where
  "fle a b = (flt a b \<or> feq a b)"

text \<open>\<^verbatim>\<open>fabsf\<close>, the absolute value of a float (not called by the source).\<close>

fun fabsf :: "float \<Rightarrow> float" where
  "fabsf (Fin r) = Fin \<bar>r\<bar>"
| "fabsf PInf = PInf"
| "fabsf NInf = PInf"
| "fabsf NaN = NaN"

subsection \<open>The device's math functions\<close>

text \<open>\<^verbatim>\<open>powf(b, 2)\<close>, the only call of \<^verbatim>\<open>powf\<close> in the source.\<close>

definition powf_2 :: "float \<Rightarrow> float" where
  "powf_2 b = fmul b b"

fun sqrtf :: "float \<Rightarrow> float" where
  "sqrtf (Fin r) = (if 0 \<le> r then Fin (sqrt r) else NaN)"
| "sqrtf PInf = PInf"
| "sqrtf NInf = NaN"
| "sqrtf NaN = NaN"


fun acosf :: "float \<Rightarrow> float" where
  "acosf (Fin r) = (if - 1 \<le> r \<and> r \<le> 1 then Fin (arccos r) else NaN)"
| "acosf PInf = NaN"
| "acosf NInf = NaN"
| "acosf NaN = NaN"

fun asinf :: "float \<Rightarrow> float" where
  "asinf (Fin r) = (if - 1 \<le> r \<and> r \<le> 1 then Fin (arcsin r) else NaN)"
| "asinf PInf = NaN"
| "asinf NInf = NaN"
| "asinf NaN = NaN"




fun logf :: "float \<Rightarrow> float" where
  "logf (Fin r) = (if 0 < r then Fin (ln r) else if r = 0 then NInf else NaN)"
| "logf PInf = PInf"
| "logf NInf = NaN"
| "logf NaN = NaN"

section \<open>The dual value \<^verbatim>\<open>Deriv\<close>\<close>

text \<open>
  \<^verbatim>\<open>struct Deriv { float4 v; }\<close>: the partial derivatives are kept in \<^verbatim>\<open>v.x\<close>,
  \<^verbatim>\<open>v.y\<close>, \<^verbatim>\<open>v.z\<close> and the value in \<^verbatim>\<open>v.w\<close>.
\<close>

datatype float4 = make_float4 (f4_x: float) (f4_y: float) (f4_z: float) (f4_w: float)

datatype Deriv = Deriv (f4_v: float4)

text \<open>The three constructors: \<^verbatim>\<open>Deriv()\<close>, \<^verbatim>\<open>Deriv(float f)\<close> and
  \<^verbatim>\<open>Deriv(float v, float dx, float dy, float dz)\<close>.\<close>

definition Deriv_0 :: "Deriv" where
  "Deriv_0 = Deriv (make_float4 (Fin 0) (Fin 0) (Fin 0) (Fin 0))"

definition Deriv_1 :: "float \<Rightarrow> Deriv" where
  "Deriv_1 f = Deriv (make_float4 (Fin 0) (Fin 0) (Fin 0) f)"

definition Deriv_4 :: "float \<Rightarrow> float \<Rightarrow> float \<Rightarrow> float \<Rightarrow> Deriv" where
  "Deriv_4 v dx dy dz = Deriv (make_float4 dx dy dz v)"

definition value_of :: "Deriv \<Rightarrow> float" where
  "value_of a = f4_w (f4_v a)"

definition dx :: "Deriv \<Rightarrow> float" where
  "dx a = f4_x (f4_v a)"

definition dy :: "Deriv \<Rightarrow> float" where
  "dy a = f4_y (f4_v a)"

definition dz :: "Deriv \<Rightarrow> float" where
  "dz a = f4_z (f4_v a)"

section \<open>The operators\<close>

text \<open>The definitions follow \<^verbatim>\<open>inc/gpu_deriv.hpp\<close> in its order. A braced list
  \<^verbatim>\<open>{v, dx, dy, dz}\<close> calls the four-argument constructor. An overload is named by its
  argument types: \<^verbatim>\<open>_Df\<close> takes a dual and a float, \<^verbatim>\<open>_fD\<close> a float and a dual.\<close>

definition operator_neg :: "Deriv \<Rightarrow> Deriv" where
  "operator_neg a = Deriv_4 (fneg (value_of a)) (fneg (dx a)) (fneg (dy a)) (fneg (dz a))"

definition operator_add :: "Deriv \<Rightarrow> Deriv \<Rightarrow> Deriv" where
  "operator_add a b =
     Deriv_4 (fadd (value_of a) (value_of b))
             (fadd (dx a) (dx b))
             (fadd (dy a) (dy b))
             (fadd (dz a) (dz b))"

definition operator_add_Df :: "Deriv \<Rightarrow> float \<Rightarrow> Deriv" where
  "operator_add_Df a b = Deriv_4 (fadd (value_of a) b) (dx a) (dy a) (dz a)"

definition operator_add_fD :: "float \<Rightarrow> Deriv \<Rightarrow> Deriv" where
  "operator_add_fD b a = operator_add_Df a b"

definition operator_mul :: "Deriv \<Rightarrow> Deriv \<Rightarrow> Deriv" where
  "operator_mul a b =
     Deriv_4 (fmul (value_of a) (value_of b))
             (fadd (fmul (dx a) (value_of b)) (fmul (dx b) (value_of a)))
             (fadd (fmul (dy a) (value_of b)) (fmul (dy b) (value_of a)))
             (fadd (fmul (dz a) (value_of b)) (fmul (dz b) (value_of a)))"

definition operator_mul_Df :: "Deriv \<Rightarrow> float \<Rightarrow> Deriv" where
  "operator_mul_Df a b =
     Deriv_4 (fmul (value_of a) b)
             (fmul (dx a) b)
             (fmul (dy a) b)
             (fmul (dz a) b)"

definition operator_mul_fD :: "float \<Rightarrow> Deriv \<Rightarrow> Deriv" where
  "operator_mul_fD a b = operator_mul_Df b a"

definition operator_div :: "Deriv \<Rightarrow> Deriv \<Rightarrow> Deriv" where
  "operator_div a b =
     (let d = powf_2 (value_of b) in
      Deriv_4 (fdiv (value_of a) (value_of b))
              (fdiv (fsub (fmul (value_of b) (dx a)) (fmul (value_of a) (dx b))) d)
              (fdiv (fsub (fmul (value_of b) (dy a)) (fmul (value_of a) (dy b))) d)
              (fdiv (fsub (fmul (value_of b) (dz a)) (fmul (value_of a) (dz b))) d))"

definition operator_div_Df :: "Deriv \<Rightarrow> float \<Rightarrow> Deriv" where
  "operator_div_Df a b =
     Deriv_4 (fdiv (value_of a) b) (fdiv (dx a) b) (fdiv (dy a) b) (fdiv (dz a) b)"

definition operator_div_fD :: "float \<Rightarrow> Deriv \<Rightarrow> Deriv" where
  "operator_div_fD a b =
     (let d = powf_2 (value_of b) in
      Deriv_4 (fdiv a (value_of b))
              (fdiv (fmul (fneg a) (dx b)) d)
              (fdiv (fmul (fneg a) (dy b)) d)
              (fdiv (fmul (fneg a) (dz b)) d))"

definition min_D :: "Deriv \<Rightarrow> Deriv \<Rightarrow> Deriv" where
  "min_D a b = (if flt (value_of a) (value_of b) then a else b)"

definition min_Df :: "Deriv \<Rightarrow> float \<Rightarrow> Deriv" where
  "min_Df a b = (if flt (value_of a) b then a else Deriv_1 b)"

definition min_fD :: "float \<Rightarrow> Deriv \<Rightarrow> Deriv" where
  "min_fD a b = min_Df b a"

definition max_D :: "Deriv \<Rightarrow> Deriv \<Rightarrow> Deriv" where
  "max_D a b = (if fge (value_of a) (value_of b) then a else b)"

definition max_Df :: "Deriv \<Rightarrow> float \<Rightarrow> Deriv" where
  "max_Df a b = (if fge (value_of a) b then a else Deriv_1 b)"

definition max_fD :: "float \<Rightarrow> Deriv \<Rightarrow> Deriv" where
  "max_fD a b = max_Df b a"

definition square :: "Deriv \<Rightarrow> Deriv" where
  "square a =
     Deriv_4 (fmul (value_of a) (value_of a))
             (fmul (fmul (dx a) (value_of a)) (Fin 2))
             (fmul (fmul (dy a) (value_of a)) (Fin 2))
             (fmul (fmul (dz a) (value_of a)) (Fin 2))"

definition abs_D :: "Deriv \<Rightarrow> Deriv" where
  "abs_D a = (if flt (value_of a) (Fin 0) then operator_neg a else a)"

definition operator_sub :: "Deriv \<Rightarrow> Deriv \<Rightarrow> Deriv" where
  "operator_sub a b =
     Deriv_4 (fsub (value_of a) (value_of b))
             (fsub (dx a) (dx b))
             (fsub (dy a) (dy b))
             (fsub (dz a) (dz b))"

definition operator_sub_Df :: "Deriv \<Rightarrow> float \<Rightarrow> Deriv" where
  "operator_sub_Df a b = Deriv_4 (fsub (value_of a) b) (dx a) (dy a) (dz a)"

definition operator_sub_fD :: "float \<Rightarrow> Deriv \<Rightarrow> Deriv" where
  "operator_sub_fD a b =
     Deriv_4 (fsub a (value_of b)) (fneg (dx b)) (fneg (dy b)) (fneg (dz b))"

definition sqrt_D :: "Deriv \<Rightarrow> Deriv" where
  "sqrt_D a =
     (let d = fmul (Fin 2) (sqrtf (value_of a)) in
      Deriv_4 (sqrtf (value_of a)) (fdiv (dx a) d) (fdiv (dy a) d) (fdiv (dz a) d))"


definition acos_D :: "Deriv \<Rightarrow> Deriv" where
  "acos_D a =
     (let d = fneg (sqrtf (fsub (Fin 1) (fmul (value_of a) (value_of a)))) in
      Deriv_4 (acosf (value_of a)) (fdiv (dx a) d) (fdiv (dy a) d) (fdiv (dz a) d))"

definition asin_D :: "Deriv \<Rightarrow> Deriv" where
  "asin_D a =
     (let d = sqrtf (fsub (Fin 1) (fmul (value_of a) (value_of a))) in
      Deriv_4 (asinf (value_of a)) (fdiv (dx a) d) (fdiv (dy a) d) (fdiv (dz a) d))"




definition log_D :: "Deriv \<Rightarrow> Deriv" where
  "log_D a =
     (let v = value_of a in
      Deriv_4 (logf v) (fdiv (dx a) v) (fdiv (dy a) v) (fdiv (dz a) v))"

section \<open>Notions used in the statements\<close>

text \<open>All four components of a dual are finite numbers.\<close>

definition finite_D :: "Deriv \<Rightarrow> bool" where
  "finite_D a = (is_finite (value_of a) \<and> is_finite (dx a) \<and> is_finite (dy a) \<and> is_finite (dz a))"



section \<open>Constructors and accessors\<close>

lemma Deriv_4_sel [simp]:
  "value_of (Deriv_4 v x y z) = v" "dx (Deriv_4 v x y z) = x"
  "dy (Deriv_4 v x y z) = y" "dz (Deriv_4 v x y z) = z"
  by (simp_all add: Deriv_4_def value_of_def dx_def dy_def dz_def)

lemma Deriv_1_sel [simp]:
  "value_of (Deriv_1 f) = f" "dx (Deriv_1 f) = Fin 0"
  "dy (Deriv_1 f) = Fin 0" "dz (Deriv_1 f) = Fin 0"
  by (simp_all add: Deriv_1_def value_of_def dx_def dy_def dz_def)

lemma Deriv_0_sel [simp]:
  "value_of Deriv_0 = Fin 0" "dx Deriv_0 = Fin 0" "dy Deriv_0 = Fin 0" "dz Deriv_0 = Fin 0"
  by (simp_all add: Deriv_0_def value_of_def dx_def dy_def dz_def)

lemma Deriv_eqI:
  "value_of a = value_of b \<Longrightarrow> dx a = dx b \<Longrightarrow> dy a = dy b \<Longrightarrow> dz a = dz b \<Longrightarrow> a = b"
  by (cases a, cases b) (simp add: value_of_def dx_def dy_def dz_def float4.expand)

lemma Deriv_4_inject [simp]:
  "Deriv_4 v x y z = Deriv_4 v' x' y' z' \<longleftrightarrow> v = v' \<and> x = x' \<and> y = y' \<and> z = z'"
  by (auto simp: Deriv_4_def)

text \<open>
  C6. A dual built from a scalar constant has the three partial derivatives zero; the
  default dual has value zero and the three partial derivatives zero; the four-argument
  constructor gives back each of its arguments through \<^verbatim>\<open>value()\<close>, \<^verbatim>\<open>dx()\<close>,
  \<^verbatim>\<open>dy()\<close>, \<^verbatim>\<open>dz()\<close>, so the duals seeded for the three axes carry a unit derivative
  along their own axis and zero along the two others.
\<close>

theorem C6_constructors:
  "value_of (Deriv_1 f) = f \<and> dx (Deriv_1 f) = Fin 0 \<and> dy (Deriv_1 f) = Fin 0
     \<and> dz (Deriv_1 f) = Fin 0
   \<and> value_of Deriv_0 = Fin 0 \<and> dx Deriv_0 = Fin 0 \<and> dy Deriv_0 = Fin 0 \<and> dz Deriv_0 = Fin 0
   \<and> value_of (Deriv_4 v x y z) = v \<and> dx (Deriv_4 v x y z) = x
     \<and> dy (Deriv_4 v x y z) = y \<and> dz (Deriv_4 v x y z) = z
   \<and> (dx (Deriv_4 v (Fin 1) (Fin 0) (Fin 0)), dy (Deriv_4 v (Fin 1) (Fin 0) (Fin 0)),
        dz (Deriv_4 v (Fin 1) (Fin 0) (Fin 0))) = (Fin 1, Fin 0, Fin 0)
   \<and> (dx (Deriv_4 v (Fin 0) (Fin 1) (Fin 0)), dy (Deriv_4 v (Fin 0) (Fin 1) (Fin 0)),
        dz (Deriv_4 v (Fin 0) (Fin 1) (Fin 0))) = (Fin 0, Fin 1, Fin 0)
   \<and> (dx (Deriv_4 v (Fin 0) (Fin 0) (Fin 1)), dy (Deriv_4 v (Fin 0) (Fin 0) (Fin 1)),
        dz (Deriv_4 v (Fin 0) (Fin 0) (Fin 1))) = (Fin 0, Fin 0, Fin 1)"
  by simp

section \<open>Facts about the comparisons\<close>

lemma flt_irrefl [simp]: "\<not> flt a a"
  by (cases a) simp_all

lemma flt_NaN_right [simp]: "\<not> flt a NaN"
  by (cases a) simp_all

lemma flt_asym: "flt a b \<Longrightarrow> \<not> flt b a"
  by (cases a; cases b) simp_all

lemma feq_refl_iff [simp]: "feq a a \<longleftrightarrow> a \<noteq> NaN"
  by (simp add: feq_def)

lemma feq_not_flt: "feq a b \<Longrightarrow> \<not> flt a b"
  by (auto simp: feq_def)

lemma fge_iff: "fge a b \<longleftrightarrow> a \<noteq> NaN \<and> b \<noteq> NaN \<and> \<not> flt a b"
  by (cases a; cases b) (auto simp: fge_def feq_def)

lemma fle_iff: "fle a b \<longleftrightarrow> a \<noteq> NaN \<and> b \<noteq> NaN \<and> \<not> flt b a"
  by (cases a; cases b) (auto simp: fle_def feq_def)

section \<open>Selection: \<^verbatim>\<open>min\<close>, \<^verbatim>\<open>max\<close> and \<^verbatim>\<open>abs\<close>\<close>

lemma min_D_cases: "min_D a b = a \<or> min_D a b = b"
  by (simp add: min_D_def)

lemma max_D_cases: "max_D a b = a \<or> max_D a b = b"
  by (simp add: max_D_def)

lemma min_D_lower:
  "\<not> flt (value_of a) (value_of (min_D a b))" "\<not> flt (value_of b) (value_of (min_D a b))"
  by (auto simp: min_D_def dest: flt_asym)

lemma max_D_upper:
  "\<not> flt (value_of (max_D a b)) (value_of a)" "\<not> flt (value_of (max_D a b)) (value_of b)"
  by (auto simp: max_D_def fge_iff dest: flt_asym)

lemma min_D_fle:
  assumes "value_of a \<noteq> NaN" "value_of b \<noteq> NaN"
  shows "fle (value_of (min_D a b)) (value_of a)" "fle (value_of (min_D a b)) (value_of b)"
  using assms by (auto simp: min_D_def fle_iff dest: flt_asym)

lemma max_D_fge:
  assumes "value_of a \<noteq> NaN" "value_of b \<noteq> NaN"
  shows "fge (value_of (max_D a b)) (value_of a)" "fge (value_of (max_D a b)) (value_of b)"
  using assms by (auto simp: max_D_def fge_iff dest: flt_asym)

text \<open>
  C3. \<^verbatim>\<open>min(a, b)\<close> and \<^verbatim>\<open>max(a, b)\<close> each return one of their two operands whole:
  the value and the three partial derivatives come from that one operand, also when the
  two values are equal, and nothing is blended. No operand has a value strictly below
  the value of \<^verbatim>\<open>min(a, b)\<close>, none has one strictly above the value of \<^verbatim>\<open>max(a, b)\<close>;
  when neither value is NaN, so that the two values are ordered, the value of
  \<^verbatim>\<open>min(a, b)\<close> is \<^verbatim>\<open><=\<close> both values and the value of \<^verbatim>\<open>max(a, b)\<close> is
  \<^verbatim>\<open>>=\<close> both: it is the smaller, respectively the larger, of the two. For two
  finite values \<open>x\<close> and \<open>y\<close> these are the numbers \<open>min x y\<close> and \<open>max x y\<close>.
\<close>

theorem C3_min_max_select:
  "(min_D a b = a \<or> min_D a b = b)
   \<and> (max_D a b = a \<or> max_D a b = b)
   \<and> \<not> flt (value_of a) (value_of (min_D a b)) \<and> \<not> flt (value_of b) (value_of (min_D a b))
   \<and> \<not> flt (value_of (max_D a b)) (value_of a) \<and> \<not> flt (value_of (max_D a b)) (value_of b)
   \<and> (value_of a \<noteq> NaN \<and> value_of b \<noteq> NaN \<longrightarrow>
        fle (value_of (min_D a b)) (value_of a) \<and> fle (value_of (min_D a b)) (value_of b)
        \<and> fge (value_of (max_D a b)) (value_of a) \<and> fge (value_of (max_D a b)) (value_of b))
   \<and> (value_of a = Fin x \<and> value_of b = Fin y \<longrightarrow>
        value_of (min_D a b) = Fin (min x y) \<and> value_of (max_D a b) = Fin (max x y))"
proof -
  have ordered: "value_of a \<noteq> NaN \<and> value_of b \<noteq> NaN \<longrightarrow>
        fle (value_of (min_D a b)) (value_of a) \<and> fle (value_of (min_D a b)) (value_of b)
        \<and> fge (value_of (max_D a b)) (value_of a) \<and> fge (value_of (max_D a b)) (value_of b)"
    by (simp add: min_D_fle max_D_fge)
  have numbers: "value_of a = Fin x \<and> value_of b = Fin y \<longrightarrow>
        value_of (min_D a b) = Fin (min x y) \<and> value_of (max_D a b) = Fin (max x y)"
    by (auto simp: min_D_def max_D_def fge_iff)
  show ?thesis
    by (intro conjI min_D_cases max_D_cases min_D_lower max_D_upper ordered numbers)
qed

theorem C3_min_max_select_witness:
  "min_D (Deriv_4 (Fin 1) (Fin 1) (Fin 0) (Fin 0)) (Deriv_4 (Fin 2) (Fin 0) (Fin 1) (Fin 0))
     = Deriv_4 (Fin 1) (Fin 1) (Fin 0) (Fin 0)
   \<and> max_D (Deriv_4 (Fin 1) (Fin 1) (Fin 0) (Fin 0)) (Deriv_4 (Fin 2) (Fin 0) (Fin 1) (Fin 0))
     = Deriv_4 (Fin 2) (Fin 0) (Fin 1) (Fin 0)
   \<and> fle (Fin 1) (Fin 1) \<and> fle (Fin 1) (Fin 2) \<and> fge (Fin 2) (Fin 1) \<and> fge (Fin 2) (Fin 2)"
  using C3_min_max_select [of "Deriv_4 (Fin 1) (Fin 1) (Fin 0) (Fin 0)"
      "Deriv_4 (Fin 2) (Fin 0) (Fin 1) (Fin 0)" 1 2]
  by (simp add: min_D_def max_D_def fge_def fle_def feq_def)

lemma abs_D_value: "value_of (abs_D a) = fabsf (value_of a)"
  by (cases "value_of a") (simp_all add: abs_D_def operator_neg_def)

text \<open>
  C4. The value of \<^verbatim>\<open>abs(a)\<close> is the absolute value of the value of \<^verbatim>\<open>a\<close>. Where
  the value of \<^verbatim>\<open>a\<close> is \<^verbatim>\<open>>= 0\<close> the partial derivatives are those of \<^verbatim>\<open>a\<close>, where
  it is \<^verbatim>\<open>< 0\<close> they are their negations. At the value zero \<^verbatim>\<open>abs(a)\<close> is \<^verbatim>\<open>a\<close>
  itself: the zero crossing has no branch of its own.
\<close>

theorem C4_abs:
  "value_of (abs_D a) = fabsf (value_of a)
   \<and> (fge (value_of a) (Fin 0) \<longrightarrow>
        dx (abs_D a) = dx a \<and> dy (abs_D a) = dy a \<and> dz (abs_D a) = dz a)
   \<and> (flt (value_of a) (Fin 0) \<longrightarrow>
        dx (abs_D a) = fneg (dx a) \<and> dy (abs_D a) = fneg (dy a) \<and> dz (abs_D a) = fneg (dz a))
   \<and> (value_of a = Fin 0 \<longrightarrow> abs_D a = a)"
proof -
  have "fge (value_of a) (Fin 0) \<Longrightarrow> abs_D a = a"
    by (simp add: abs_D_def fge_iff)
  moreover have "flt (value_of a) (Fin 0) \<Longrightarrow> abs_D a = operator_neg a"
    by (simp add: abs_D_def)
  moreover have "value_of a = Fin 0 \<Longrightarrow> abs_D a = a"
    by (simp add: abs_D_def)
  ultimately show ?thesis
    using abs_D_value [of a] by (auto simp: operator_neg_def)
qed

theorem C4_abs_witness:
  "abs_D (Deriv_4 (Fin (- 3)) (Fin 1) (Fin 2) (Fin (- 5))) = Deriv_4 (Fin 3) (Fin (- 1)) (Fin (- 2)) (Fin 5)
   \<and> abs_D (Deriv_4 (Fin 3) (Fin 1) (Fin 2) (Fin (- 5))) = Deriv_4 (Fin 3) (Fin 1) (Fin 2) (Fin (- 5))
   \<and> abs_D (Deriv_4 (Fin 0) (Fin 1) (Fin 2) (Fin (- 5))) = Deriv_4 (Fin 0) (Fin 1) (Fin 2) (Fin (- 5))"
  using C4_abs [of "Deriv_4 (Fin (- 3)) (Fin 1) (Fin 2) (Fin (- 5))"]
    C4_abs [of "Deriv_4 (Fin 3) (Fin 1) (Fin 2) (Fin (- 5))"]
    C4_abs [of "Deriv_4 (Fin 0) (Fin 1) (Fin 2) (Fin (- 5))"]
  by (simp add: abs_D_def operator_neg_def)

text \<open>
  C8. When the two values compare equal (\<^verbatim>\<open>a.value() == b.value()\<close>), \<^verbatim>\<open>min(a, b)\<close>
  is \<^verbatim>\<open>b\<close> and \<^verbatim>\<open>max(a, b)\<close> is \<^verbatim>\<open>a\<close>; so the two results differ whenever the
  operands do.
\<close>

theorem C8_tie_break:
  "(feq (value_of a) (value_of b) \<longrightarrow> min_D a b = b \<and> max_D a b = a)
   \<and> (feq (value_of a) (value_of b) \<and> a \<noteq> b \<longrightarrow> min_D a b \<noteq> max_D a b)"
  by (auto simp: min_D_def max_D_def fge_def dest: feq_not_flt)

theorem C8_tie_break_witness:
  "feq (Fin 5) (Fin 5)
   \<and> min_D (Deriv_4 (Fin 5) (Fin 1) (Fin 0) (Fin 0)) (Deriv_4 (Fin 5) (Fin 0) (Fin 1) (Fin 0))
       = Deriv_4 (Fin 5) (Fin 0) (Fin 1) (Fin 0)
   \<and> max_D (Deriv_4 (Fin 5) (Fin 1) (Fin 0) (Fin 0)) (Deriv_4 (Fin 5) (Fin 0) (Fin 1) (Fin 0))
       = Deriv_4 (Fin 5) (Fin 1) (Fin 0) (Fin 0)
   \<and> min_D (Deriv_4 (Fin 5) (Fin 1) (Fin 0) (Fin 0)) (Deriv_4 (Fin 5) (Fin 0) (Fin 1) (Fin 0))
       \<noteq> max_D (Deriv_4 (Fin 5) (Fin 1) (Fin 0) (Fin 0)) (Deriv_4 (Fin 5) (Fin 0) (Fin 1) (Fin 0))"
  using C8_tie_break [of "Deriv_4 (Fin 5) (Fin 1) (Fin 0) (Fin 0)"
      "Deriv_4 (Fin 5) (Fin 0) (Fin 1) (Fin 0)"]
  by (simp add: feq_def)

section \<open>Facts about the arithmetic\<close>

lemma fadd_NaN_right [simp]: "fadd a NaN = NaN"
  by (cases a) simp_all

lemma fmul_NaN_right [simp]: "fmul a NaN = NaN"
  by (cases a) simp_all

lemma fdiv_NaN_right [simp]: "fdiv a NaN = NaN"
  by (cases a) simp_all

lemma fadd_commute: "fadd a b = fadd b a"
  by (cases a; cases b) simp_all

lemma fmul_commute: "fmul a b = fmul b a"
  by (cases a; cases b) (simp_all add: mult.commute)

lemma fadd_zero_right [simp]: "fadd a (Fin 0) = a"
  by (cases a) simp_all

lemma fadd_zero_left [simp]: "fadd (Fin 0) a = a"
  by (cases a) simp_all

lemma fsub_zero_right [simp]: "fsub a (Fin 0) = a"
  by (simp add: fsub_def)

lemma fsub_zero_left [simp]: "fsub (Fin 0) a = fneg a"
  by (simp add: fsub_def)

lemma fmul_zero_finite: "is_finite a \<Longrightarrow> fmul (Fin 0) a = Fin 0"
  by (cases a) simp_all

lemma fmul_two: "fmul p (Fin 2) = fadd p p"
  by (cases p) (simp_all add: inf_sgn_def)

lemma is_finite_not_NaN: "is_finite a \<Longrightarrow> a \<noteq> NaN"
  by (cases a) simp_all

lemma flt_total: "a \<noteq> NaN \<Longrightarrow> b \<noteq> NaN \<Longrightarrow> flt a b \<or> flt b a \<or> a = b"
  by (cases a; cases b) auto

lemma fdiv_zero_not_finite: "\<not> is_finite (fdiv a (Fin 0))"
  by (cases a) (simp_all add: inf_sgn_def)

lemma powf_2_Fin [simp]: "powf_2 (Fin r) = Fin (r * r)"
  by (simp add: powf_2_def)

lemma Deriv_1_eq: "Deriv_1 f = Deriv_4 f (Fin 0) (Fin 0) (Fin 0)"
  by (simp add: Deriv_1_def Deriv_4_def)

section \<open>Propagation of the derivatives\<close>


















section \<open>The square and the mixed overloads\<close>

lemma square_eq_mul: "square a = operator_mul a a"
  by (simp add: square_def operator_mul_def fmul_two)

text \<open>
  C9. For a dual whose four components are finite, \<^verbatim>\<open>square(a)\<close> has the value and
  the three partial derivatives of \<^verbatim>\<open>a * a\<close>: \<^verbatim>\<open>d * v * 2\<close> and
  \<^verbatim>\<open>d * v + d * v\<close> are the same number.
\<close>

theorem C9_square_is_self_product:
  "finite_D a \<longrightarrow>
     value_of (square a) = value_of (operator_mul a a)
     \<and> dx (square a) = dx (operator_mul a a)
     \<and> dy (square a) = dy (operator_mul a a)
     \<and> dz (square a) = dz (operator_mul a a)"
  by (simp add: square_eq_mul)

theorem C9_square_is_self_product_witness:
  "finite_D (Deriv_4 (Fin 3) (Fin 1) (Fin 5) (Fin (- 2)))
   \<and> square (Deriv_4 (Fin 3) (Fin 1) (Fin 5) (Fin (- 2))) = Deriv_4 (Fin 9) (Fin 6) (Fin 30) (Fin (- 12))
   \<and> operator_mul (Deriv_4 (Fin 3) (Fin 1) (Fin 5) (Fin (- 2))) (Deriv_4 (Fin 3) (Fin 1) (Fin 5) (Fin (- 2)))
       = Deriv_4 (Fin 9) (Fin 6) (Fin 30) (Fin (- 12))"
  using C9_square_is_self_product [of "Deriv_4 (Fin 3) (Fin 1) (Fin 5) (Fin (- 2))"]
  by (simp add: finite_D_def square_def operator_mul_def)

lemma add_Df_promote: "operator_add_Df a b = operator_add a (Deriv_1 b)"
  by (simp add: operator_add_Df_def operator_add_def)

lemma add_fD_promote: "operator_add_fD b a = operator_add (Deriv_1 b) a"
  by (simp add: operator_add_fD_def operator_add_Df_def operator_add_def fadd_commute)

lemma sub_Df_promote: "operator_sub_Df a b = operator_sub a (Deriv_1 b)"
  by (simp add: operator_sub_Df_def operator_sub_def)

lemma sub_fD_promote: "operator_sub_fD b a = operator_sub (Deriv_1 b) a"
  by (simp add: operator_sub_fD_def operator_sub_def)

lemma mul_Df_promote:
  "is_finite (value_of a) \<Longrightarrow> operator_mul_Df a b = operator_mul a (Deriv_1 b)"
  by (simp add: operator_mul_Df_def operator_mul_def fmul_zero_finite)

lemma mul_fD_promote:
  "is_finite (value_of a) \<Longrightarrow> operator_mul_fD b a = operator_mul (Deriv_1 b) a"
  by (simp add: operator_mul_fD_def operator_mul_Df_def operator_mul_def fmul_zero_finite
      fmul_commute [of b])

lemma min_Df_promote: "min_Df a b = min_D a (Deriv_1 b)"
  by (simp add: min_Df_def min_D_def)

lemma max_Df_promote: "max_Df a b = max_D a (Deriv_1 b)"
  by (simp add: max_Df_def max_D_def)

lemma min_fD_swapped: "min_fD b a = min_D a (Deriv_1 b)"
  by (simp add: min_fD_def min_Df_promote)

lemma max_fD_swapped: "max_fD b a = max_D a (Deriv_1 b)"
  by (simp add: max_fD_def max_Df_promote)

lemma min_fD_promote:
  assumes "value_of a \<noteq> NaN" "b \<noteq> NaN" "\<not> feq (value_of a) b"
  shows "min_fD b a = min_D (Deriv_1 b) a"
  using assms flt_total [of "value_of a" b]
  by (auto simp: min_fD_def min_Df_def min_D_def feq_def dest: flt_asym)

lemma max_fD_promote:
  assumes "value_of a \<noteq> NaN" "b \<noteq> NaN" "\<not> feq (value_of a) b"
  shows "max_fD b a = max_D (Deriv_1 b) a"
  using assms flt_total [of "value_of a" b]
  by (auto simp: max_fD_def max_Df_def max_D_def fge_iff feq_def dest: flt_asym)

lemma min_fD_value:
  assumes "value_of a \<noteq> NaN" "b \<noteq> NaN"
  shows "value_of (min_fD b a) = value_of (min_D (Deriv_1 b) a)"
  using assms flt_total [of "value_of a" b]
  by (auto simp: min_fD_def min_Df_def min_D_def dest: flt_asym)

lemma max_fD_value:
  assumes "value_of a \<noteq> NaN" "b \<noteq> NaN"
  shows "value_of (max_fD b a) = value_of (max_D (Deriv_1 b) a)"
  using assms flt_total [of "value_of a" b]
  by (auto simp: max_fD_def max_Df_def max_D_def fge_iff dest: flt_asym)

text \<open>
  C10 (amended). For a dual \<open>a\<close> with finite components and a finite float \<open>b\<close>:
  \<^verbatim>\<open>a + b\<close>, \<^verbatim>\<open>a - b\<close>, \<^verbatim>\<open>a * b\<close>, \<^verbatim>\<open>min(a, b)\<close> and \<^verbatim>\<open>max(a, b)\<close> are the
  dual-dual operator applied to \<open>a\<close> and \<^verbatim>\<open>Deriv(b)\<close>; \<^verbatim>\<open>b + a\<close>, \<^verbatim>\<open>b - a\<close> and
  \<^verbatim>\<open>b * a\<close> are the dual-dual operator applied to \<^verbatim>\<open>Deriv(b)\<close> and \<open>a\<close>. The
  float-first \<^verbatim>\<open>min(b, a)\<close> and \<^verbatim>\<open>max(b, a)\<close> swap their operands: they are the
  dual-dual \<^verbatim>\<open>min\<close> and \<^verbatim>\<open>max\<close> of \<open>a\<close> and \<^verbatim>\<open>Deriv(b)\<close>; they have the value of
  the dual-dual \<^verbatim>\<open>min\<close> and \<^verbatim>\<open>max\<close> of \<^verbatim>\<open>Deriv(b)\<close> and \<open>a\<close>, and are equal to
  them whenever the value of \<open>a\<close> and \<open>b\<close> do not compare equal.
\<close>

theorem C10_promotion:
  "finite_D a \<and> is_finite b \<longrightarrow>
     operator_add_Df a b = operator_add a (Deriv_1 b)
     \<and> operator_sub_Df a b = operator_sub a (Deriv_1 b)
     \<and> operator_mul_Df a b = operator_mul a (Deriv_1 b)
     \<and> min_Df a b = min_D a (Deriv_1 b)
     \<and> max_Df a b = max_D a (Deriv_1 b)
     \<and> operator_add_fD b a = operator_add (Deriv_1 b) a
     \<and> operator_sub_fD b a = operator_sub (Deriv_1 b) a
     \<and> operator_mul_fD b a = operator_mul (Deriv_1 b) a
     \<and> min_fD b a = min_D a (Deriv_1 b)
     \<and> max_fD b a = max_D a (Deriv_1 b)
     \<and> value_of (min_fD b a) = value_of (min_D (Deriv_1 b) a)
     \<and> value_of (max_fD b a) = value_of (max_D (Deriv_1 b) a)
     \<and> (\<not> feq (value_of a) b \<longrightarrow>
          min_fD b a = min_D (Deriv_1 b) a \<and> max_fD b a = max_D (Deriv_1 b) a)"
proof (intro impI, elim conjE)
  assume fin: "finite_D a" "is_finite b"
  then have v: "is_finite (value_of a)" and n: "value_of a \<noteq> NaN" "b \<noteq> NaN"
    by (simp_all add: finite_D_def is_finite_not_NaN)
  show "operator_add_Df a b = operator_add a (Deriv_1 b)
     \<and> operator_sub_Df a b = operator_sub a (Deriv_1 b)
     \<and> operator_mul_Df a b = operator_mul a (Deriv_1 b)
     \<and> min_Df a b = min_D a (Deriv_1 b)
     \<and> max_Df a b = max_D a (Deriv_1 b)
     \<and> operator_add_fD b a = operator_add (Deriv_1 b) a
     \<and> operator_sub_fD b a = operator_sub (Deriv_1 b) a
     \<and> operator_mul_fD b a = operator_mul (Deriv_1 b) a
     \<and> min_fD b a = min_D a (Deriv_1 b)
     \<and> max_fD b a = max_D a (Deriv_1 b)
     \<and> value_of (min_fD b a) = value_of (min_D (Deriv_1 b) a)
     \<and> value_of (max_fD b a) = value_of (max_D (Deriv_1 b) a)
     \<and> (\<not> feq (value_of a) b \<longrightarrow>
          min_fD b a = min_D (Deriv_1 b) a \<and> max_fD b a = max_D (Deriv_1 b) a)"
    using add_Df_promote sub_Df_promote mul_Df_promote [OF v] min_Df_promote max_Df_promote
      add_fD_promote sub_fD_promote mul_fD_promote [OF v] min_fD_swapped max_fD_swapped
      min_fD_value [OF n] max_fD_value [OF n] min_fD_promote [OF n] max_fD_promote [OF n]
    by (intro conjI impI) assumption+
qed

theorem C10_promotion_witness:
  "finite_D (Deriv_4 (Fin 3) (Fin 1) (Fin 2) (Fin 4)) \<and> is_finite (Fin 5)
   \<and> operator_mul_Df (Deriv_4 (Fin 3) (Fin 1) (Fin 2) (Fin 4)) (Fin 5)
       = Deriv_4 (Fin 15) (Fin 5) (Fin 10) (Fin 20)
   \<and> operator_mul (Deriv_4 (Fin 3) (Fin 1) (Fin 2) (Fin 4)) (Deriv_1 (Fin 5))
       = Deriv_4 (Fin 15) (Fin 5) (Fin 10) (Fin 20)
   \<and> operator_sub_fD (Fin 5) (Deriv_4 (Fin 3) (Fin 1) (Fin 2) (Fin 4))
       = Deriv_4 (Fin 2) (Fin (- 1)) (Fin (- 2)) (Fin (- 4))
   \<and> operator_sub (Deriv_1 (Fin 5)) (Deriv_4 (Fin 3) (Fin 1) (Fin 2) (Fin 4))
       = Deriv_4 (Fin 2) (Fin (- 1)) (Fin (- 2)) (Fin (- 4))
   \<and> \<not> feq (value_of (Deriv_4 (Fin 3) (Fin 1) (Fin 2) (Fin 4))) (Fin 5)
   \<and> min_fD (Fin 5) (Deriv_4 (Fin 3) (Fin 1) (Fin 2) (Fin 4))
       = Deriv_4 (Fin 3) (Fin 1) (Fin 2) (Fin 4)
   \<and> min_D (Deriv_1 (Fin 5)) (Deriv_4 (Fin 3) (Fin 1) (Fin 2) (Fin 4))
       = Deriv_4 (Fin 3) (Fin 1) (Fin 2) (Fin 4)
   \<and> max_fD (Fin 5) (Deriv_4 (Fin 3) (Fin 1) (Fin 2) (Fin 4))
       = Deriv_4 (Fin 5) (Fin 0) (Fin 0) (Fin 0)
   \<and> max_D (Deriv_1 (Fin 5)) (Deriv_4 (Fin 3) (Fin 1) (Fin 2) (Fin 4))
       = Deriv_4 (Fin 5) (Fin 0) (Fin 0) (Fin 0)"
  using C10_promotion [of "Deriv_4 (Fin 3) (Fin 1) (Fin 2) (Fin 4)" "Fin 5"]
  by (simp add: finite_D_def feq_def operator_mul_def operator_sub_def fsub_def
      min_D_def max_D_def fge_def Deriv_1_eq)

text \<open>
  C10 as stated fails for the float-first overloads. At \<open>a = (0; 1, 0, 0)\<close> and
  \<open>b = 0\<close> the values tie: \<^verbatim>\<open>min(b, a)\<close> is \<^verbatim>\<open>Deriv(b)\<close>, with the derivatives
  \<open>(0, 0, 0)\<close>, while the dual-dual \<^verbatim>\<open>min(Deriv(b), a)\<close> is \<open>a\<close>, with the
  derivatives \<open>(1, 0, 0)\<close>; \<^verbatim>\<open>max(b, a)\<close> is \<open>a\<close> while \<^verbatim>\<open>max(Deriv(b), a)\<close> is
  \<^verbatim>\<open>Deriv(b)\<close>. Nor is every float-first overload the dual-dual operator applied to
  \<open>a\<close> and \<^verbatim>\<open>Deriv(b)\<close> in this order: \<^verbatim>\<open>b - a\<close> has the derivatives
  \<open>(-1, 0, 0)\<close>, \<^verbatim>\<open>a - Deriv(b)\<close> has \<open>(1, 0, 0)\<close>.
\<close>

theorem C10_mirror_counterexample:
  "finite_D (Deriv_4 (Fin 0) (Fin 1) (Fin 0) (Fin 0)) \<and> is_finite (Fin 0)
   \<and> min_fD (Fin 0) (Deriv_4 (Fin 0) (Fin 1) (Fin 0) (Fin 0))
       = Deriv_4 (Fin 0) (Fin 0) (Fin 0) (Fin 0)
   \<and> min_D (Deriv_1 (Fin 0)) (Deriv_4 (Fin 0) (Fin 1) (Fin 0) (Fin 0))
       = Deriv_4 (Fin 0) (Fin 1) (Fin 0) (Fin 0)
   \<and> max_fD (Fin 0) (Deriv_4 (Fin 0) (Fin 1) (Fin 0) (Fin 0))
       = Deriv_4 (Fin 0) (Fin 1) (Fin 0) (Fin 0)
   \<and> max_D (Deriv_1 (Fin 0)) (Deriv_4 (Fin 0) (Fin 1) (Fin 0) (Fin 0))
       = Deriv_4 (Fin 0) (Fin 0) (Fin 0) (Fin 0)
   \<and> operator_sub_fD (Fin 0) (Deriv_4 (Fin 0) (Fin 1) (Fin 0) (Fin 0))
       = Deriv_4 (Fin 0) (Fin (- 1)) (Fin 0) (Fin 0)
   \<and> operator_sub (Deriv_4 (Fin 0) (Fin 1) (Fin 0) (Fin 0)) (Deriv_1 (Fin 0))
       = Deriv_4 (Fin 0) (Fin 1) (Fin 0) (Fin 0)"
  by (simp add: finite_D_def min_fD_def min_Df_def min_D_def max_fD_def max_Df_def max_D_def
      fge_def feq_def operator_sub_fD_def operator_sub_def fsub_def Deriv_1_eq)

section \<open>Results outside the domain of a primitive\<close>

lemma div_by_zero:
  assumes "value_of b = Fin 0"
  shows "\<not> is_finite (value_of (operator_div a b))" "\<not> is_finite (dx (operator_div a b))"
    "\<not> is_finite (dy (operator_div a b))" "\<not> is_finite (dz (operator_div a b))"
  using assms by (simp_all add: operator_div_def Let_def fdiv_zero_not_finite)

lemma div_fD_by_zero:
  assumes "value_of b = Fin 0"
  shows "\<not> is_finite (value_of (operator_div_fD f b))" "\<not> is_finite (dx (operator_div_fD f b))"
    "\<not> is_finite (dy (operator_div_fD f b))" "\<not> is_finite (dz (operator_div_fD f b))"
  using assms by (simp_all add: operator_div_fD_def Let_def fdiv_zero_not_finite)

lemma div_Df_by_zero:
  shows "\<not> is_finite (value_of (operator_div_Df a (Fin 0)))"
    "\<not> is_finite (dx (operator_div_Df a (Fin 0)))"
    "\<not> is_finite (dy (operator_div_Df a (Fin 0)))"
    "\<not> is_finite (dz (operator_div_Df a (Fin 0)))"
  by (simp_all add: operator_div_Df_def fdiv_zero_not_finite)

lemma log_non_positive:
  assumes "value_of a = Fin t" "t \<le> 0"
  shows "value_of (log_D a) = (if t = 0 then NInf else NaN)"
  using assms by (simp add: log_D_def Let_def)

lemma sqrt_negative:
  assumes "value_of a = Fin t" "t < 0"
  shows "sqrt_D a = Deriv_4 NaN NaN NaN NaN"
  using assms by (simp add: sqrt_D_def Let_def)

lemma one_minus_sq_neg:
  fixes t :: real
  assumes "t < - 1 \<or> 1 < t"
  shows "1 - t * t < 0"
proof -
  have "0 < (t - 1) * (t + 1)"
    using assms by (auto intro: mult_pos_pos mult_neg_neg)
  then show ?thesis
    by (simp add: algebra_simps)
qed

lemma asin_outside:
  assumes "value_of a = Fin t" "t < - 1 \<or> 1 < t"
  shows "asin_D a = Deriv_4 NaN NaN NaN NaN"
  using assms one_minus_sq_neg [OF assms(2)]
  by (auto simp: asin_D_def Let_def fsub_def)

lemma acos_outside:
  assumes "value_of a = Fin t" "t < - 1 \<or> 1 < t"
  shows "acos_D a = Deriv_4 NaN NaN NaN NaN"
  using assms one_minus_sq_neg [OF assms(2)]
  by (auto simp: acos_D_def Let_def fsub_def)

text \<open>
  C5. No operator has an error result: each returns a dual, also where the mathematical
  function is undefined, and the result then carries infinities and NaN. A division by
  a dual whose value is zero (by a zero float as well) gives a dual whose four
  components are all non-finite; \<^verbatim>\<open>log\<close> at a non-positive value gives the value
  \<open>-\<infinity>\<close> (at zero) or NaN (below zero); \<^verbatim>\<open>sqrt\<close> at a negative value, and
  \<^verbatim>\<open>asin\<close> and \<^verbatim>\<open>acos\<close> at a value outside \<open>[-1, 1]\<close>, give the dual whose four
  components are NaN.
\<close>

theorem C5_non_finite_results:
  "(value_of b = Fin 0 \<longrightarrow>
      \<not> is_finite (value_of (operator_div a b)) \<and> \<not> is_finite (dx (operator_div a b))
      \<and> \<not> is_finite (dy (operator_div a b)) \<and> \<not> is_finite (dz (operator_div a b))
      \<and> \<not> is_finite (value_of (operator_div_fD f b)) \<and> \<not> is_finite (dx (operator_div_fD f b))
      \<and> \<not> is_finite (dy (operator_div_fD f b)) \<and> \<not> is_finite (dz (operator_div_fD f b)))
   \<and> \<not> is_finite (value_of (operator_div_Df a (Fin 0)))
   \<and> \<not> is_finite (dx (operator_div_Df a (Fin 0)))
   \<and> \<not> is_finite (dy (operator_div_Df a (Fin 0)))
   \<and> \<not> is_finite (dz (operator_div_Df a (Fin 0)))
   \<and> (value_of a = Fin t \<and> t \<le> 0 \<longrightarrow> value_of (log_D a) = (if t = 0 then NInf else NaN))
   \<and> (value_of a = Fin t \<and> t < 0 \<longrightarrow> sqrt_D a = Deriv_4 NaN NaN NaN NaN)
   \<and> (value_of a = Fin t \<and> (t < - 1 \<or> 1 < t) \<longrightarrow>
        asin_D a = Deriv_4 NaN NaN NaN NaN \<and> acos_D a = Deriv_4 NaN NaN NaN NaN)"
  using div_by_zero [of b a] div_fD_by_zero [of b f] div_Df_by_zero [of a]
    log_non_positive [of a t] sqrt_negative [of a t] asin_outside [of a t] acos_outside [of a t]
  by blast

theorem C5_non_finite_results_witness:
  "operator_div (Deriv_4 (Fin 1) (Fin 1) (Fin 0) (Fin 0)) (Deriv_4 (Fin 0) (Fin 0) (Fin 1) (Fin 0))
     = Deriv_4 PInf NaN NInf NaN
   \<and> operator_div_fD (Fin 1) (Deriv_4 (Fin 0) (Fin 0) (Fin 1) (Fin 0)) = Deriv_4 PInf NaN NInf NaN
   \<and> value_of (log_D (Deriv_4 (Fin 0) (Fin 0) (Fin 1) (Fin 0))) = NInf
   \<and> value_of (log_D (Deriv_4 (Fin (- 2)) (Fin 0) (Fin 1) (Fin 0))) = NaN
   \<and> sqrt_D (Deriv_4 (Fin (- 2)) (Fin 0) (Fin 1) (Fin 0)) = Deriv_4 NaN NaN NaN NaN
   \<and> asin_D (Deriv_4 (Fin (- 2)) (Fin 0) (Fin 1) (Fin 0)) = Deriv_4 NaN NaN NaN NaN
   \<and> acos_D (Deriv_4 (Fin (- 2)) (Fin 0) (Fin 1) (Fin 0)) = Deriv_4 NaN NaN NaN NaN"
  using C5_non_finite_results [of "Deriv_4 (Fin 0) (Fin 0) (Fin 1) (Fin 0)"
      "Deriv_4 (Fin 1) (Fin 1) (Fin 0) (Fin 0)" "Fin 1" 0]
    C5_non_finite_results [of "Deriv_4 (Fin 0) (Fin 0) (Fin 1) (Fin 0)"
      "Deriv_4 (Fin (- 2)) (Fin 0) (Fin 1) (Fin 0)" "Fin 1" "- 2"]
  by (simp add: operator_div_def operator_div_fD_def log_D_def Let_def fsub_def inf_sgn_def)

end
